theory Spec2Isabelle
  imports Complex_Main "HOL-Library.Word" "HOL-Library.Sublist"
begin

section \<open>Exceptions, keyword arguments and the base class\<close>

text \<open>
  What a call can raise, as values: the errors the module raises itself
  (\<^verbatim>\<open>RuntimeError\<close>, \<^verbatim>\<open>NotImplementedError\<close>, \<^verbatim>\<open>OSError\<close>), the bus error of jeepney with
  its \<^verbatim>\<open>name\<close>, the \<^verbatim>\<open>TypeError\<close> of an unexpected keyword argument, the
  \<^verbatim>\<open>IndexError\<close> of \<^verbatim>\<open>reply[0]\<close>, any other subclass of \<^verbatim>\<open>Exception\<close> that a
  collaborator raises, and what is not a subclass of \<^verbatim>\<open>Exception\<close>: \<^verbatim>\<open>SystemExit\<close>,
  \<^verbatim>\<open>KeyboardInterrupt\<close>, and the death of the process by a signal in native code
  (\<open>Segfault\<close>), which no handler sees.
\<close>

datatype exn =
    RuntimeError string
  | NotImplementedError
  | OSError string
  | TypeError string
  | IndexError
  | DBusErrorResponse string
  | OtherException string
  | SystemExit
  | KeyboardInterrupt
  | Segfault

text \<open>What \<^verbatim>\<open>except Exception\<close> catches.\<close>

fun is_Exception :: "exn \<Rightarrow> bool" where
  "is_Exception SystemExit = False"
| "is_Exception KeyboardInterrupt = False"
| "is_Exception Segfault = False"
| "is_Exception e = True"

text \<open>\<^verbatim>\<open>**kwargs\<close>: keyword names with their (numeric) values.\<close>

type_synonym kwargs = "(string \<times> real) list"

text \<open>
  An instance of \<^verbatim>\<open>IdleMonitor\<close> holds \<^verbatim>\<open>idle_threshold\<close>; a subclass adds its own
  attributes in the extension of the record.
\<close>

record monitor =
  idle_threshold :: real

text \<open>
  \<^verbatim>\<open>def __init__(self, *, idle_threshold: int = 120)\<close>: a keyword other than
  \<^verbatim>\<open>idle_threshold\<close> is a \<^verbatim>\<open>TypeError\<close>; the threshold defaults to 120.
\<close>

definition IdleMonitor_init :: "kwargs \<Rightarrow> exn + monitor" where
  "IdleMonitor_init kwargs =
     (case filter (\<lambda>k. k \<noteq> ''idle_threshold'') (map fst kwargs) of
        k # _ \<Rightarrow> Inl (TypeError k)
      | [] \<Rightarrow>
          Inr \<lparr>idle_threshold =
                 (case map_of kwargs ''idle_threshold'' of None \<Rightarrow> 120 | Some t \<Rightarrow> t)\<rparr>)"

text \<open>
  \<^verbatim>\<open>is_idle\<close> of the base class: \<^verbatim>\<open>return self.get_idle_time() > self.idle_threshold\<close>.
  The method \<^verbatim>\<open>get_idle_time\<close> is the one of the instance's class (the first argument);
  when it raises, so does \<^verbatim>\<open>is_idle\<close>.
\<close>

definition is_idle ::
  "('m monitor_scheme \<Rightarrow> 'w \<Rightarrow> (exn + real) \<times> 'w) \<Rightarrow> 'm monitor_scheme \<Rightarrow> 'w \<Rightarrow> (exn + bool) \<times> 'w"
where
  "is_idle get_idle_time self w =
     (case get_idle_time self w of
        (Inl e, w') \<Rightarrow> (Inl e, w')
      | (Inr t, w') \<Rightarrow> (Inr (t > idle_threshold self), w'))"

section \<open>The selector\<close>

text \<open>
  A candidate of the registry: a class with its name, its constructor
  (\<^verbatim>\<open>monitor_class(**kwargs)\<close>) and its \<^verbatim>\<open>get_idle_time\<close>. Both act on the world \<open>'w\<close>
  outside the program and either raise or return.
\<close>

record ('w, 'm) monitor_class =
  cls_name :: string
  cls_new :: "kwargs \<Rightarrow> 'w \<Rightarrow> (exn + 'm monitor_scheme) \<times> 'w"
  cls_get_idle_time :: "'m monitor_scheme \<Rightarrow> 'w \<Rightarrow> (exn + real) \<times> 'w"

text \<open>
  What the selector does to its candidates, in order (\<open>calls\<close>), and what it hands to the
  logger (\<open>log\<close>).
\<close>

datatype call = Construct string | Query string

datatype log_record =
    Info string string
  | Warning string string exn

record 'w state =
  world :: 'w
  calls :: "call list"
  log :: "log_record list"

text \<open>
  \<^verbatim>\<open>get_monitor\<close>: the loop over \<^verbatim>\<open>cls.subclasses\<close>. The body of the \<^verbatim>\<open>try\<close> constructs the
  candidate, queries it once, logs and returns it. \<^verbatim>\<open>except Exception\<close> catches an
  exception of either call when it is an \<^verbatim>\<open>Exception\<close>, logs it as a warning, and the
  loop goes on; anything else leaves \<open>get_monitor\<close> at once. After the loop:
  \<^verbatim>\<open>RuntimeError\<close>.
\<close>

fun get_monitor ::
  "('w, 'm) monitor_class list \<Rightarrow> kwargs \<Rightarrow> 'w state \<Rightarrow> (exn + 'm monitor_scheme) \<times> 'w state"
where
  "get_monitor [] kwargs s = (Inl (RuntimeError ''Could not find a working monitor.''), s)"
| "get_monitor (monitor_class # rest) kwargs s =
     (case cls_new monitor_class kwargs (world s) of
        (Inl e, w1) \<Rightarrow>
          if is_Exception e
          then get_monitor rest kwargs
                 (s\<lparr>world := w1,
                    calls := calls s @ [Construct (cls_name monitor_class)],
                    log := log s @ [Warning ''Trying other montiors, could not load %s''
                                      (cls_name monitor_class) e]\<rparr>)
          else (Inl e,
                s\<lparr>world := w1,
                  calls := calls s @ [Construct (cls_name monitor_class)]\<rparr>)
      | (Inr m, w1) \<Rightarrow>
          (case cls_get_idle_time monitor_class m w1 of
             (Inl e, w2) \<Rightarrow>
               if is_Exception e
               then get_monitor rest kwargs
                      (s\<lparr>world := w2,
                         calls := calls s @ [Construct (cls_name monitor_class),
                                             Query (cls_name monitor_class)],
                         log := log s @ [Warning ''Trying other montiors, could not load %s''
                                           (cls_name monitor_class) e]\<rparr>)
               else (Inl e,
                     s\<lparr>world := w2,
                       calls := calls s @ [Construct (cls_name monitor_class),
                                           Query (cls_name monitor_class)]\<rparr>)
           | (Inr t, w2) \<Rightarrow>
               (Inr m,
                s\<lparr>world := w2,
                  calls := calls s @ [Construct (cls_name monitor_class),
                                      Query (cls_name monitor_class)],
                  log := log s @ [Info ''Using %s'' (cls_name monitor_class)]\<rparr>)))"

subsection \<open>The two-phase probe of the specification\<close>

text \<open>
  The specification describes the selector through a probe of one candidate: construct,
  and if that succeeds query once. These definitions follow its words; the theorems
  compare \<open>get_monitor\<close> with them.
\<close>

datatype 'm outcome =
    ConstructFailed exn
  | ProbeFailed exn
  | Usable "'m monitor_scheme" real

definition spec_probe ::
  "('w, 'm) monitor_class \<Rightarrow> kwargs \<Rightarrow> 'w \<Rightarrow> 'm outcome \<times> 'w"
where
  "spec_probe c kwargs w =
     (case cls_new c kwargs w of
        (Inl e, w1) \<Rightarrow> (ConstructFailed e, w1)
      | (Inr m, w1) \<Rightarrow>
          (case cls_get_idle_time c m w1 of
             (Inl e, w2) \<Rightarrow> (ProbeFailed e, w2)
           | (Inr t, w2) \<Rightarrow> (Usable m t, w2)))"

text \<open>Probing every candidate of a list in turn, whatever the outcomes.\<close>

fun spec_probe_all ::
  "('w, 'm) monitor_class list \<Rightarrow> kwargs \<Rightarrow> 'w \<Rightarrow> 'm outcome list \<times> 'w"
where
  "spec_probe_all [] kwargs w = ([], w)"
| "spec_probe_all (c # cs) kwargs w =
     (case spec_probe c kwargs w of
        (out, w1) \<Rightarrow>
          (case spec_probe_all cs kwargs w1 of (outs, w2) \<Rightarrow> (out # outs, w2)))"

text \<open>
  The outcome of a candidate that the selector discards: a construction or a query that
  raised an \<^verbatim>\<open>Exception\<close>.
\<close>

fun discarded :: "'m outcome \<Rightarrow> bool" where
  "discarded (ConstructFailed e) = is_Exception e"
| "discarded (ProbeFailed e) = is_Exception e"
| "discarded (Usable m t) = False"

text \<open>
  The calls a probe with a given outcome consists of: a failed construction is a
  construction and nothing else; otherwise a construction and one query.
\<close>

fun probe_calls :: "string \<Rightarrow> 'm outcome \<Rightarrow> call list" where
  "probe_calls n (ConstructFailed e) = [Construct n]"
| "probe_calls n (ProbeFailed e) = [Construct n, Query n]"
| "probe_calls n (Usable m t) = [Construct n, Query n]"

fun probe_log :: "string \<Rightarrow> 'm outcome \<Rightarrow> log_record list" where
  "probe_log n (ConstructFailed e) = [Warning ''Trying other montiors, could not load %s'' n e]"
| "probe_log n (ProbeFailed e) = [Warning ''Trying other montiors, could not load %s'' n e]"
| "probe_log n (Usable m t) = [Info ''Using %s'' n]"

fun trace_calls :: "('w, 'm) monitor_class list \<Rightarrow> 'm outcome list \<Rightarrow> call list" where
  "trace_calls (c # cs) (out # outs) = probe_calls (cls_name c) out @ trace_calls cs outs"
| "trace_calls cs outs = []"

fun trace_log :: "('w, 'm) monitor_class list \<Rightarrow> 'm outcome list \<Rightarrow> log_record list" where
  "trace_log (c # cs) (out # outs) = probe_log (cls_name c) out @ trace_log cs outs"
| "trace_log cs outs = []"

fun constructions :: "call list \<Rightarrow> string list" where
  "constructions [] = []"
| "constructions (Construct n # cs) = n # constructions cs"
| "constructions (Query n # cs) = constructions cs"

section \<open>The world outside the program\<close>

text \<open>
  The platform calls the three backends make are taken as given by the world:
  \<^item> \<open>environ\<close> is \<^verbatim>\<open>os.environ\<close>;
  \<^item> \<open>tick_count\<close> and \<open>last_input_info\<close> are what \<^verbatim>\<open>win32api.GetTickCount()\<close> and
    \<^verbatim>\<open>win32api.GetLastInputInfo()\<close> return, as Python integers;
  \<^item> \<open>bus_connect\<close> is the exception \<^verbatim>\<open>connect_and_authenticate\<close> raises, if any, and
    \<open>bus_reply\<close> what \<^verbatim>\<open>send_and_get_reply\<close> does: the exception it raises or the body
    of the reply;
  \<^item> \<open>connections\<close> is the state of every session-bus connection, by handle, and
    \<open>n_connections\<close> the number of connections opened so far; \<open>bus_calls\<close> records the
    calls made on the bus, in order;
  \<^item> \<open>find_library\<close> is \<^verbatim>\<open>ctypes.util.find_library\<close>, and \<open>load_library\<close> the exception
    \<^verbatim>\<open>ctypes.cdll.LoadLibrary\<close> raises on a path, if any;
  \<^item> \<open>x_display\<close> says whether \<^verbatim>\<open>XOpenDisplay\<close> finds a display server (else it returns
    the null pointer), and \<open>x_null_display\<close> is how a call of the X libraries ends when
    it is handed the null display, if it does not return; \<open>open_displays\<close> counts the
    display handles that \<^verbatim>\<open>XOpenDisplay\<close> has returned (the module never closes one), and
    \<open>x_root_window\<close> is what \<^verbatim>\<open>XDefaultRootWindow\<close> returns;
  \<^item> \<open>xss_query\<close> is the idle counter that \<^verbatim>\<open>XScreenSaverQueryInfo\<close> writes into the
    buffer, or \<open>None\<close> when the query fails and writes nothing; \<open>xss_buffers\<close> is the
    \<^verbatim>\<open>idle\<close> field (a \<^verbatim>\<open>c_ulong\<close>, 64 bits here) of every buffer that
    \<^verbatim>\<open>XScreenSaverAllocInfo\<close> has returned, by handle, and \<open>n_xss_buffers\<close> their number.
  Idle times are Python floats; they are modelled by the reals, the quotient taken
  exactly.
\<close>

datatype conn_state = Unopened | Opened | Closed

datatype bus_call = ConnectAndAuthenticate | SendAndGetReply nat | CloseConnection nat

record world =
  environ :: "(string \<times> string) list"
  tick_count :: int
  last_input_info :: int
  bus_connect :: "exn option"
  bus_reply :: "exn + int list"
  connections :: "nat \<Rightarrow> conn_state"
  n_connections :: nat
  bus_calls :: "bus_call list"
  find_library :: "string \<Rightarrow> string option"
  load_library :: "string \<Rightarrow> exn option"
  x_display :: bool
  x_null_display :: "exn option"
  open_displays :: nat
  x_root_window :: "32 word"
  xss_query :: "64 word option"
  xss_buffers :: "nat \<Rightarrow> 64 word"
  n_xss_buffers :: nat

text \<open>
  The attributes a subclass adds to an instance. The constructor of the extension is
  the class of the instance, on which a method call dispatches.
\<close>

record method_call =
  path :: string
  bus_name :: string
  interface :: string
  member :: string

datatype fields =
    IdleMonitorFields
  | WindowsFields
  | GnomeWaylandFields (connection: nat) (message: method_call)
  | X11Fields (display: "nat option") (root_window: "32 word") (lib_xss: string) (xss_info: nat)

type_synonym idle_monitor = "fields monitor_scheme"

definition instance_of :: "monitor \<Rightarrow> fields \<Rightarrow> idle_monitor" where
  "instance_of base fs = monitor.extend base fs"

section \<open>The tick-counter backend\<close>

text \<open>
  \<^verbatim>\<open>WindowsIdleMonitor\<close> inherits \<^verbatim>\<open>__init__\<close>. Its query is
  \<^verbatim>\<open>(win32api.GetTickCount() - win32api.GetLastInputInfo()) / 1000\<close> on Python's unbounded
  integers, with true division.
\<close>

definition WindowsIdleMonitor_init :: "kwargs \<Rightarrow> world \<Rightarrow> (exn + idle_monitor) \<times> world" where
  "WindowsIdleMonitor_init kwargs w =
     (case IdleMonitor_init kwargs of
        Inl e \<Rightarrow> (Inl e, w)
      | Inr base \<Rightarrow> (Inr (instance_of base WindowsFields), w))"

definition WindowsIdleMonitor_get_idle_time :: "idle_monitor \<Rightarrow> world \<Rightarrow> (exn + real) \<times> world" where
  "WindowsIdleMonitor_get_idle_time self w =
     (Inr (real_of_int (tick_count w - last_input_info w) / 1000), w)"

section \<open>The session-bus backend\<close>

text \<open>\<^verbatim>\<open>sub in s\<close> on strings.\<close>

fun str_in :: "string \<Rightarrow> string \<Rightarrow> bool" where
  "str_in sub [] = (sub = [])"
| "str_in sub (c # cs) = (prefix sub (c # cs) \<or> str_in sub cs)"

text \<open>\<^verbatim>\<open>os.environ.get(key, default)\<close>.\<close>

definition environ_get :: "world \<Rightarrow> string \<Rightarrow> string \<Rightarrow> string" where
  "environ_get w key dflt = (case map_of (environ w) key of None \<Rightarrow> dflt | Some v \<Rightarrow> v)"

text \<open>
  \<^verbatim>\<open>connect_and_authenticate(bus="SESSION")\<close>: raises what the world says, or returns a
  new open connection.
\<close>

definition connect_and_authenticate :: "world \<Rightarrow> (exn + nat) \<times> world" where
  "connect_and_authenticate w =
     (let w1 = w\<lparr>bus_calls := bus_calls w @ [ConnectAndAuthenticate]\<rparr> in
      case bus_connect w of
        Some e \<Rightarrow> (Inl e, w1)
      | None \<Rightarrow>
          (Inr (n_connections w1),
           w1\<lparr>connections := (connections w1)(n_connections w1 := Opened),
              n_connections := Suc (n_connections w1)\<rparr>))"

text \<open>
  \<^verbatim>\<open>connection.send_and_get_reply(message)\<close>: on an open connection the world's answer, an
  error or the body; on a connection that is not open, the \<^verbatim>\<open>OSError\<close> of the socket.
\<close>

definition send_and_get_reply :: "nat \<Rightarrow> method_call \<Rightarrow> world \<Rightarrow> (exn + int list) \<times> world" where
  "send_and_get_reply c msg w =
     (let w1 = w\<lparr>bus_calls := bus_calls w @ [SendAndGetReply c]\<rparr> in
      if connections w c = Opened then (bus_reply w, w1)
      else (Inl (OSError ''[Errno 9] Bad file descriptor''), w1))"

text \<open>\<^verbatim>\<open>connection.close()\<close>.\<close>

definition close_connection :: "nat \<Rightarrow> world \<Rightarrow> world" where
  "close_connection c w =
     w\<lparr>connections := (connections w)(c := Closed),
       bus_calls := bus_calls w @ [CloseConnection c]\<rparr>"

text \<open>
  \<^verbatim>\<open>GnomeWaylandIdleMonitor.__init__\<close>: the base class's \<^verbatim>\<open>__init__\<close>, the check of
  \<^verbatim>\<open>XDG_CURRENT_DESKTOP\<close>, then the address, the connection and the message.
\<close>

definition GnomeWaylandIdleMonitor_init :: "kwargs \<Rightarrow> world \<Rightarrow> (exn + idle_monitor) \<times> world" where
  "GnomeWaylandIdleMonitor_init kwargs w =
     (case IdleMonitor_init kwargs of
        Inl e \<Rightarrow> (Inl e, w)
      | Inr base \<Rightarrow>
          if \<not> str_in ''GNOME'' (environ_get w ''XDG_CURRENT_DESKTOP'' '''')
          then (Inl (RuntimeError ''Gnome is not running.''), w)
          else
            (case connect_and_authenticate w of
               (Inl e, w1) \<Rightarrow> (Inl e, w1)
             | (Inr c, w1) \<Rightarrow>
                 (Inr (instance_of base
                         (GnomeWaylandFields c
                            \<lparr>path = ''/org/gnome/Mutter/IdleMonitor/Core'',
                             bus_name = ''org.gnome.Mutter.IdleMonitor'',
                             interface = ''org.gnome.Mutter.IdleMonitor'',
                             member = ''GetIdletime''\<rparr>)),
                  w1)))"

text \<open>
  \<^verbatim>\<open>GnomeWaylandIdleMonitor.get_idle_time\<close>: \<^verbatim>\<open>reply[0] / 1000\<close>; a \<^verbatim>\<open>DBusErrorResponse\<close>
  closes the connection and is raised again, as a \<^verbatim>\<open>RuntimeError\<close> when its name is
  \<^verbatim>\<open>ServiceUnknown\<close>; any other exception passes through the \<^verbatim>\<open>try\<close> untouched.
\<close>

definition GnomeWaylandIdleMonitor_get_idle_time ::
  "nat \<Rightarrow> method_call \<Rightarrow> world \<Rightarrow> (exn + real) \<times> world"
where
  "GnomeWaylandIdleMonitor_get_idle_time conn msg w =
     (case send_and_get_reply conn msg w of
        (Inr reply, w1) \<Rightarrow>
          (case reply of
             [] \<Rightarrow> (Inl IndexError, w1)
           | idle_time # _ \<Rightarrow> (Inr (real_of_int idle_time / 1000), w1))
      | (Inl (DBusErrorResponse name), w1) \<Rightarrow>
          (let w2 = close_connection conn w1 in
           if name = ''org.freedesktop.DBus.Error.ServiceUnknown''
           then (Inl (RuntimeError ''Gnome Mutter is not available, is gnome running?''), w2)
           else (Inl (DBusErrorResponse name), w2))
      | (Inl e, w1) \<Rightarrow> (Inl e, w1))"

section \<open>The display-extension backend\<close>

text \<open>
  \<^verbatim>\<open>_load_lib\<close>: \<^verbatim>\<open>OSError\<close> when \<^verbatim>\<open>find_library\<close> returns \<^verbatim>\<open>None\<close>, else whatever
  \<^verbatim>\<open>LoadLibrary\<close> does with the path.
\<close>

definition load_lib :: "string \<Rightarrow> world \<Rightarrow> exn + string" where
  "load_lib name w =
     (case find_library w name of
        None \<Rightarrow> Inl (OSError (''Could not find library `'' @ name @ ''`''))
      | Some p \<Rightarrow> (case load_library w p of Some e \<Rightarrow> Inl e | None \<Rightarrow> Inr p))"

text \<open>
  \<^verbatim>\<open>XOpenDisplay(None)\<close>: a new display handle when a display server answers, else the
  null pointer, which \<^verbatim>\<open>ctypes\<close> hands back as \<^verbatim>\<open>None\<close>. The source does not test the
  result.
\<close>

definition XOpenDisplay :: "world \<Rightarrow> nat option \<times> world" where
  "XOpenDisplay w =
     (if x_display w
      then (Some (open_displays w), w\<lparr>open_displays := Suc (open_displays w)\<rparr>)
      else (None, w))"

text \<open>\<^verbatim>\<open>XDefaultRootWindow(display)\<close>, with what the library does to a null display.\<close>

definition XDefaultRootWindow :: "nat option \<Rightarrow> world \<Rightarrow> exn + 32 word" where
  "XDefaultRootWindow d w =
     (case d of
        Some h \<Rightarrow> Inr (x_root_window w)
      | None \<Rightarrow> (case x_null_display w of Some e \<Rightarrow> Inl e | None \<Rightarrow> Inr (x_root_window w)))"

text \<open>
  \<^verbatim>\<open>XScreenSaverQueryInfo(display, root_window, xss_info)\<close>: fills the buffer when the
  server answers; its status is not looked at by the caller.
\<close>

definition XScreenSaverQueryInfo :: "nat option \<Rightarrow> nat \<Rightarrow> world \<Rightarrow> exn + world" where
  "XScreenSaverQueryInfo d buf w =
     (let filled = (case xss_query w of
                      None \<Rightarrow> w
                    | Some idle \<Rightarrow> w\<lparr>xss_buffers := (xss_buffers w)(buf := idle)\<rparr>)
      in case d of
           Some h \<Rightarrow> Inr filled
         | None \<Rightarrow> (case x_null_display w of Some e \<Rightarrow> Inl e | None \<Rightarrow> Inr filled))"

text \<open>
  \<^verbatim>\<open>X11IdleMonitor.__init__\<close>: the base class's \<^verbatim>\<open>__init__\<close>, the X11 library, the display
  from \<^verbatim>\<open>XOpenDisplay\<close> with its root window, the Xss library, and a buffer from
  \<^verbatim>\<open>XScreenSaverAllocInfo\<close>. Nothing in the class closes the display or frees the buffer.
\<close>

definition X11IdleMonitor_init :: "kwargs \<Rightarrow> world \<Rightarrow> (exn + idle_monitor) \<times> world" where
  "X11IdleMonitor_init kwargs w =
     (case IdleMonitor_init kwargs of
        Inl e \<Rightarrow> (Inl e, w)
      | Inr base \<Rightarrow>
          (case load_lib ''X11'' w of
             Inl e \<Rightarrow> (Inl e, w)
           | Inr lib_x11 \<Rightarrow>
               (case XOpenDisplay w of
                  (d, w1) \<Rightarrow>
                    (case XDefaultRootWindow d w1 of
                       Inl e \<Rightarrow> (Inl e, w1)
                     | Inr rw \<Rightarrow>
                         (case load_lib ''Xss'' w1 of
                            Inl e \<Rightarrow> (Inl e, w1)
                          | Inr xss \<Rightarrow>
                              (let b = n_xss_buffers w1;
                                   w2 = w1\<lparr>n_xss_buffers := Suc (n_xss_buffers w1)\<rparr>
                               in (Inr (instance_of base (X11Fields d rw xss b)), w2)))))))"

text \<open>
  \<^verbatim>\<open>X11IdleMonitor.get_idle_time\<close>: \<^verbatim>\<open>XScreenSaverQueryInfo\<close> on the display and the
  buffer, then the buffer's \<^verbatim>\<open>idle\<close>, a \<^verbatim>\<open>c_ulong\<close>, divided by 1000.
\<close>

definition X11IdleMonitor_get_idle_time ::
  "nat option \<Rightarrow> nat \<Rightarrow> world \<Rightarrow> (exn + real) \<times> world"
where
  "X11IdleMonitor_get_idle_time d buf w =
     (case XScreenSaverQueryInfo d buf w of
        Inl e \<Rightarrow> (Inl e, w)
      | Inr w1 \<Rightarrow> (Inr (real (unat (xss_buffers w1 buf)) / 1000), w1))"

section \<open>Method dispatch and the classes of the module\<close>

text \<open>
  \<^verbatim>\<open>self.get_idle_time()\<close> on an instance: the method of its class; the base class raises
  \<^verbatim>\<open>NotImplementedError\<close>.
\<close>

definition get_idle_time :: "idle_monitor \<Rightarrow> world \<Rightarrow> (exn + real) \<times> world" where
  "get_idle_time self w =
     (case monitor.more self of
        IdleMonitorFields \<Rightarrow> (Inl NotImplementedError, w)
      | WindowsFields \<Rightarrow> WindowsIdleMonitor_get_idle_time self w
      | GnomeWaylandFields conn msg \<Rightarrow> GnomeWaylandIdleMonitor_get_idle_time conn msg w
      | X11Fields d rw xss buf \<Rightarrow> X11IdleMonitor_get_idle_time d buf w)"

definition WindowsIdleMonitor :: "(world, fields) monitor_class" where
  "WindowsIdleMonitor =
     \<lparr>cls_name = ''WindowsIdleMonitor'',
      cls_new = WindowsIdleMonitor_init,
      cls_get_idle_time = get_idle_time\<rparr>"

definition GnomeWaylandIdleMonitor :: "(world, fields) monitor_class" where
  "GnomeWaylandIdleMonitor =
     \<lparr>cls_name = ''GnomeWaylandIdleMonitor'',
      cls_new = GnomeWaylandIdleMonitor_init,
      cls_get_idle_time = get_idle_time\<rparr>"

definition X11IdleMonitor :: "(world, fields) monitor_class" where
  "X11IdleMonitor =
     \<lparr>cls_name = ''X11IdleMonitor'',
      cls_new = X11IdleMonitor_init,
      cls_get_idle_time = get_idle_time\<rparr>"

section \<open>Class definitions and the registry\<close>

text \<open>
  A \<^verbatim>\<open>class\<close> statement of the module: the name, the bases and the methods its body
  defines. The state of the module while it is imported: the classes defined so far,
  each with its ancestors, and the list \<^verbatim>\<open>IdleMonitor.subclasses\<close>.
\<close>

record class_def =
  cd_name :: string
  cd_bases :: "string list"
  cd_methods :: "string list"

record module_state =
  defined :: "(string \<times> string list) list"
  subclasses :: "string list"

definition ancestors :: "module_state \<Rightarrow> string \<Rightarrow> string list" where
  "ancestors st n = (case map_of (defined st) n of None \<Rightarrow> [] | Some a \<Rightarrow> a)"

text \<open>
  \<^verbatim>\<open>__init_subclass__\<close>: \<^verbatim>\<open>super().__init_subclass__()\<close> (of \<^verbatim>\<open>object\<close>, which does nothing)
  and \<^verbatim>\<open>cls.subclasses.append(cls)\<close>, on the one list that the base class holds.
\<close>

definition init_subclass :: "string \<Rightarrow> module_state \<Rightarrow> module_state" where
  "init_subclass cls st = st\<lparr>subclasses := subclasses st @ [cls]\<rparr>"

text \<open>
  Executing a \<^verbatim>\<open>class\<close> statement creates the class and then calls the
  \<^verbatim>\<open>__init_subclass__\<close> of its parent: the one above when \<^verbatim>\<open>IdleMonitor\<close> is an ancestor.
\<close>

definition exec_class_def :: "module_state \<Rightarrow> class_def \<Rightarrow> module_state" where
  "exec_class_def st cd =
     (let anc = concat (map (\<lambda>b. b # ancestors st b) (cd_bases cd));
          st1 = st\<lparr>defined := (cd_name cd, anc) # defined st\<rparr>
      in if ''IdleMonitor'' \<in> set anc then init_subclass (cd_name cd) st1 else st1)"

text \<open>
  The module: \<^verbatim>\<open>class IdleMonitor\<close> with \<^verbatim>\<open>subclasses = []\<close>; then
  \<^verbatim>\<open>WindowsIdleMonitor\<close> in the \<^verbatim>\<open>else\<close> of \<^verbatim>\<open>try: import win32api\<close>, that is when the
  import succeeds; then \<^verbatim>\<open>GnomeWaylandIdleMonitor\<close> and \<^verbatim>\<open>X11IdleMonitor\<close>.
\<close>

definition IdleMonitor_defined :: module_state where
  "IdleMonitor_defined = \<lparr>defined = [(''IdleMonitor'', [''object''])], subclasses = []\<rparr>"

definition module_body :: "bool \<Rightarrow> class_def list" where
  "module_body win32api =
     (if win32api
      then [\<lparr>cd_name = ''WindowsIdleMonitor'', cd_bases = [''IdleMonitor''],
             cd_methods = [''get_idle_time'']\<rparr>]
      else []) @
     [\<lparr>cd_name = ''GnomeWaylandIdleMonitor'', cd_bases = [''IdleMonitor''],
       cd_methods = [''__init__'', ''get_idle_time'']\<rparr>,
      \<lparr>cd_name = ''X11IdleMonitor'', cd_bases = [''IdleMonitor''],
       cd_methods = [''__init__'', ''get_idle_time'', ''_load_lib'']\<rparr>]"

text \<open>
  Executing the \<^verbatim>\<open>class\<close> statements of any program, in order, after the one of
  \<^verbatim>\<open>IdleMonitor\<close>.
\<close>

definition exec_module :: "class_def list \<Rightarrow> module_state" where
  "exec_module defs = foldl exec_class_def IdleMonitor_defined defs"

definition import_module :: "bool \<Rightarrow> module_state" where
  "import_module win32api = exec_module (module_body win32api)"




text \<open>The class objects behind the names, the base class among them.\<close>

definition IdleMonitor_new :: "kwargs \<Rightarrow> world \<Rightarrow> (exn + idle_monitor) \<times> world" where
  "IdleMonitor_new kwargs w =
     (case IdleMonitor_init kwargs of
        Inl e \<Rightarrow> (Inl e, w)
      | Inr base \<Rightarrow> (Inr (instance_of base IdleMonitorFields), w))"

definition IdleMonitor :: "(world, fields) monitor_class" where
  "IdleMonitor =
     \<lparr>cls_name = ''IdleMonitor'',
      cls_new = IdleMonitor_new,
      cls_get_idle_time = get_idle_time\<rparr>"

definition module_classes :: "(string \<times> (world, fields) monitor_class) list" where
  "module_classes =
     [(''IdleMonitor'', IdleMonitor),
      (''WindowsIdleMonitor'', WindowsIdleMonitor),
      (''GnomeWaylandIdleMonitor'', GnomeWaylandIdleMonitor),
      (''X11IdleMonitor'', X11IdleMonitor)]"

text \<open>\<^verbatim>\<open>cls.subclasses\<close> once the module is imported, as the selector reads it.\<close>

definition registry :: "bool \<Rightarrow> (world, fields) monitor_class list" where
  "registry win32api =
     List.map_filter (map_of module_classes) (subclasses (import_module win32api))"

section \<open>Observations on a run of the selector\<close>

fun queries :: "call list \<Rightarrow> string list" where
  "queries [] = []"
| "queries (Construct n # cs) = queries cs"
| "queries (Query n # cs) = n # queries cs"

text \<open>The candidates of a list whose construction succeeded, by the outcomes of their probes.\<close>

fun constructed :: "('w, 'm) monitor_class list \<Rightarrow> 'm outcome list \<Rightarrow> string list" where
  "constructed (c # cs) (ConstructFailed e # outs) = constructed cs outs"
| "constructed (c # cs) (out # outs) = cls_name c # constructed cs outs"
| "constructed cs outs = []"

text \<open>A world in which nothing is there: no desktop, no bus, no library.\<close>

definition bare_world :: world where
  "bare_world =
     \<lparr>environ = [], tick_count = 0, last_input_info = 0,
      bus_connect = Some (OtherException ''no session bus''), bus_reply = Inr [],
      connections = (\<lambda>c. Unopened), n_connections = 0, bus_calls = [],
      find_library = (\<lambda>n. None), load_library = (\<lambda>p. None),
      x_display = False, x_null_display = Some Segfault,
      open_displays = 0, x_root_window = 0, xss_query = None,
      xss_buffers = (\<lambda>b. 0), n_xss_buffers = 0\<rparr>"

text \<open>
  A desktop that is not GNOME, with both X libraries and a server that reports 300000
  milliseconds; and a GNOME desktop whose session bus has no Mutter service.
\<close>

definition x11_world :: world where
  "x11_world =
     bare_world\<lparr>environ := [(''XDG_CURRENT_DESKTOP'', ''XFCE'')],
                find_library := (\<lambda>n. if n = ''X11'' then Some ''libX11.so.6''
                                     else if n = ''Xss'' then Some ''libXss.so.1'' else None),
                x_display := True,
                xss_query := Some 300000\<rparr>"

definition gnome_without_mutter_world :: world where
  "gnome_without_mutter_world =
     x11_world\<lparr>environ := [(''XDG_CURRENT_DESKTOP'', ''ubuntu:GNOME'')],
               bus_connect := None,
               bus_reply := Inl (DBusErrorResponse ''org.freedesktop.DBus.Error.ServiceUnknown'')\<rparr>"

text \<open>
  A desktop with the X11 library but without the Xss library; the session-bus monitor that
  the first connection of a GNOME desktop gives; and a machine whose 32-bit tick counter
  has wrapped around since the last input.
\<close>

definition x11_without_xss_world :: world where
  "x11_without_xss_world =
     x11_world\<lparr>find_library := (\<lambda>n. if n = ''X11'' then Some ''libX11.so.6'' else None)\<rparr>"

definition gnome_monitor :: idle_monitor where
  "gnome_monitor =
     \<lparr>idle_threshold = 120, \<dots> =
        GnomeWaylandFields 0
          \<lparr>path = ''/org/gnome/Mutter/IdleMonitor/Core'',
           bus_name = ''org.gnome.Mutter.IdleMonitor'',
           interface = ''org.gnome.Mutter.IdleMonitor'',
           member = ''GetIdletime''\<rparr>\<rparr>"

definition tick_wrap_world :: world where
  "tick_wrap_world = bare_world\<lparr>tick_count := 1000, last_input_info := 4294967000\<rparr>"

text \<open>
  A subclass that a client of the module defines, and that its definition registers:
  its constructor leaves through \<^verbatim>\<open>sys.exit()\<close>, that is, it raises \<^verbatim>\<open>SystemExit\<close>.
\<close>

definition ExitingMonitor :: "(world, fields) monitor_class" where
  "ExitingMonitor =
     \<lparr>cls_name = ''ExitingMonitor'',
      cls_new = (\<lambda>kwargs w. (Inl SystemExit, w)),
      cls_get_idle_time = get_idle_time\<rparr>"

text \<open>
  A GNOME desktop on which the request on the bus is interrupted from the keyboard; a
  GNOME desktop whose bus answers with an error other than \<^verbatim>\<open>ServiceUnknown\<close>; and a
  machine with both X libraries but no display server, on which the X library dies on the
  null display.
\<close>

definition interrupted_gnome_world :: world where
  "interrupted_gnome_world = gnome_without_mutter_world\<lparr>bus_reply := Inl KeyboardInterrupt\<rparr>"

definition gnome_no_reply_world :: world where
  "gnome_no_reply_world =
     gnome_without_mutter_world
       \<lparr>bus_reply := Inl (DBusErrorResponse ''org.freedesktop.DBus.Error.NoReply'')\<rparr>"

definition headless_world :: world where
  "headless_world = x11_world\<lparr>x_display := False, x_null_display := Some Segfault\<rparr>"

definition start :: "'w \<Rightarrow> 'w state" where
  "start w = \<lparr>world = w, calls = [], log = []\<rparr>"

section \<open>Properties of the selector\<close>

lemma spec_probe_all_length:
  "spec_probe_all cs kwargs w = (outs, w') \<Longrightarrow> length outs = length cs"
  by (induction cs arbitrary: w outs) (auto split: prod.splits)

lemma get_monitor_step_failed:
  assumes "spec_probe c kwargs (world s) = (out, w1)" and "discarded out"
  shows "get_monitor (c # rest) kwargs s =
         get_monitor rest kwargs
           (s\<lparr>world := w1,
              calls := calls s @ probe_calls (cls_name c) out,
              log := log s @ probe_log (cls_name c) out\<rparr>)"
  using assms
  by (cases out) (auto simp: spec_probe_def split: prod.splits sum.splits)

lemma get_monitor_skip_failed:
  assumes "spec_probe_all pre kwargs (world s) = (outs, w1)" and "list_all discarded outs"
  shows "get_monitor (pre @ rest) kwargs s =
         get_monitor rest kwargs
           (s\<lparr>world := w1,
              calls := calls s @ trace_calls pre outs,
              log := log s @ trace_log pre outs\<rparr>)"
  using assms
proof (induction pre arbitrary: s outs)
  case Nil
  then show ?case by auto
next
  case (Cons c pre)
  obtain out w2 where p: "spec_probe c kwargs (world s) = (out, w2)"
    by (cases "spec_probe c kwargs (world s)")
  obtain outs' w3 where q: "spec_probe_all pre kwargs w2 = (outs', w3)"
    by (cases "spec_probe_all pre kwargs w2")
  from Cons.prems(1) p q have o: "outs = out # outs'" and w: "w3 = w1"
    by simp_all
  from Cons.prems(2) o have f: "discarded out" and fs: "list_all discarded outs'"
    by simp_all
  let ?s1 = "s\<lparr>world := w2,
                calls := calls s @ probe_calls (cls_name c) out,
                log := log s @ probe_log (cls_name c) out\<rparr>"
  have "get_monitor ((c # pre) @ rest) kwargs s = get_monitor (pre @ rest) kwargs ?s1"
    using get_monitor_step_failed [OF p f] by simp
  also have "\<dots> = get_monitor rest kwargs
                     (?s1\<lparr>world := w3,
                          calls := calls ?s1 @ trace_calls pre outs',
                          log := log ?s1 @ trace_log pre outs'\<rparr>)"
    using Cons.IH [of ?s1 outs'] q fs w by simp
  finally show ?case using o w by simp
qed

lemma constructions_append:
  "constructions (xs @ ys) = constructions xs @ constructions ys"
  by (induction xs rule: constructions.induct) simp_all

lemma constructions_probe_calls: "constructions (probe_calls n out) = [n]"
  by (cases out) simp_all

lemma constructions_trace_calls:
  "length outs = length cs \<Longrightarrow> constructions (trace_calls cs outs) = map cls_name cs"
  by (induction cs outs rule: trace_calls.induct)
     (simp_all add: constructions_append constructions_probe_calls)

lemma queries_append: "queries (xs @ ys) = queries xs @ queries ys"
  by (induction xs rule: queries.induct) simp_all

lemma queries_trace_calls:
  "length outs = length cs \<Longrightarrow> queries (trace_calls cs outs) = constructed cs outs"
proof (induction cs outs rule: trace_calls.induct)
  case (1 c cs out outs)
  then show ?case by (cases out) (simp_all add: queries_append)
qed simp_all

lemma constructed_snoc_usable:
  "length outs = length cs \<Longrightarrow>
   constructed (cs @ [c]) (outs @ [Usable m t]) = constructed cs outs @ [cls_name c]"
proof (induction cs outs rule: trace_calls.induct)
  case (1 c' cs out outs)
  then show ?case by (cases out) simp_all
qed simp_all

subsection \<open>Evaluating the backends\<close>

lemmas backend_defs =
  spec_probe_def IdleMonitor_init_def instance_of_def monitor.extend_def
  WindowsIdleMonitor_def WindowsIdleMonitor_init_def WindowsIdleMonitor_get_idle_time_def
  GnomeWaylandIdleMonitor_def GnomeWaylandIdleMonitor_init_def
  GnomeWaylandIdleMonitor_get_idle_time_def environ_get_def connect_and_authenticate_def
  send_and_get_reply_def close_connection_def
  X11IdleMonitor_def X11IdleMonitor_init_def X11IdleMonitor_get_idle_time_def load_lib_def
  XOpenDisplay_def XDefaultRootWindow_def XScreenSaverQueryInfo_def
  ExitingMonitor_def get_idle_time_def

lemmas world_defs =
  bare_world_def x11_world_def gnome_without_mutter_world_def interrupted_gnome_world_def
  gnome_no_reply_world_def headless_world_def start_def

lemma cls_names:
  "cls_name IdleMonitor = ''IdleMonitor''"
  "cls_name WindowsIdleMonitor = ''WindowsIdleMonitor''"
  "cls_name GnomeWaylandIdleMonitor = ''GnomeWaylandIdleMonitor''"
  "cls_name X11IdleMonitor = ''X11IdleMonitor''"
  "cls_name ExitingMonitor = ''ExitingMonitor''"
  by (simp_all add: IdleMonitor_def WindowsIdleMonitor_def GnomeWaylandIdleMonitor_def
      X11IdleMonitor_def ExitingMonitor_def)

lemma registry_eq:
  "registry win32api =
     (if win32api then [WindowsIdleMonitor] else []) @ [GnomeWaylandIdleMonitor, X11IdleMonitor]"
  by (simp add: registry_def import_module_def exec_module_def module_body_def
      IdleMonitor_defined_def exec_class_def_def init_subclass_def ancestors_def
      module_classes_def List.map_filter_def Let_def)

text \<open>
  What is not an \<^verbatim>\<open>Exception\<close> leaves the selector at once: from the construction without
  a query, from the query without a further candidate.
\<close>

lemma get_monitor_construction_escapes:
  assumes "cls_new c kwargs (world s) = (Inl e, w1)" and "\<not> is_Exception e"
  shows "get_monitor (c # rest) kwargs s =
           (Inl e, s\<lparr>world := w1, calls := calls s @ [Construct (cls_name c)]\<rparr>)"
  using assms by simp

lemma get_monitor_query_escapes:
  assumes "cls_new c kwargs (world s) = (Inr m, w1)"
    and "cls_get_idle_time c m w1 = (Inl e, w2)" and "\<not> is_Exception e"
  shows "get_monitor (c # rest) kwargs s =
           (Inl e, s\<lparr>world := w2,
                     calls := calls s @ [Construct (cls_name c), Query (cls_name c)]\<rparr>)"
  using assms by simp

text \<open>
  On a machine with both X libraries and no display server, the display-extension
  candidate hands the null display to the X library.
\<close>

lemma x11_candidate_without_display:
  "fst (get_monitor [X11IdleMonitor] [] (start headless_world)) = Inl Segfault"
  by (simp add: backend_defs world_defs)

subsection \<open>C1: the first usable candidate wins\<close>

text \<open>
  C1, as the specification states it, holds of every registry with a usable candidate. A
  candidate before it that raises something other than an \<^verbatim>\<open>Exception\<close> ends the
  search: with a client's subclass whose constructor raises \<^verbatim>\<open>SystemExit\<close> in front of
  the display-extension candidate, on a desktop where that candidate constructs and
  answers 300 seconds, \<open>get_monitor\<close> raises \<^verbatim>\<open>SystemExit\<close> after the one construction
  and returns nothing.
\<close>

theorem exiting_candidate_hides_the_usable_one:
  "fst (spec_probe X11IdleMonitor [] x11_world)
     = Usable \<lparr>idle_threshold = 120, \<dots> = X11Fields (Some 0) 0 ''libXss.so.1'' 0\<rparr> 300
   \<and> fst (get_monitor [ExitingMonitor, X11IdleMonitor] [] (start x11_world)) = Inl SystemExit
   \<and> calls (snd (get_monitor [ExitingMonitor, X11IdleMonitor] [] (start x11_world)))
       = [Construct ''ExitingMonitor'']"
  by (simp add: backend_defs world_defs)

text \<open>
  C1, as the code has it. Let the registry be \<open>pre @ c # post\<close>, where every candidate of
  \<open>pre\<close>, probed in registration order from the current world, fails its construction or
  its query with an \<^verbatim>\<open>Exception\<close>, and \<open>c\<close>, probed in the world they leave, is
  constructed as \<open>m\<close> and answers its query. Then \<open>get_monitor\<close> returns \<open>m\<close>. The calls it
  has made are those of the probes of \<open>pre\<close> followed by one construction and one query of
  \<open>c\<close>: every candidate up to \<open>c\<close> is constructed exactly once, in order; exactly the
  candidates that were constructed are queried, once each; and no candidate of \<open>post\<close>
  is constructed or queried.
\<close>

theorem get_monitor_returns_first_usable:
  assumes "spec_probe_all pre kwargs (world s) = (outs, w1)"
    and "list_all discarded outs"
    and "spec_probe c kwargs w1 = (Usable m t, w2)"
  shows "get_monitor (pre @ c # post) kwargs s =
           (Inr m,
            s\<lparr>world := w2,
              calls := calls s @ trace_calls pre outs @
                         [Construct (cls_name c), Query (cls_name c)],
              log := log s @ trace_log pre outs @ [Info ''Using %s'' (cls_name c)]\<rparr>)
         \<and> constructions (trace_calls pre outs @ [Construct (cls_name c), Query (cls_name c)])
             = map cls_name (pre @ [c])
         \<and> queries (trace_calls pre outs @ [Construct (cls_name c), Query (cls_name c)])
             = constructed (pre @ [c]) (outs @ [Usable m t])"
proof -
  have len: "length outs = length pre"
    using assms(1) by (rule spec_probe_all_length)
  let ?s1 = "s\<lparr>world := w1, calls := calls s @ trace_calls pre outs,
                log := log s @ trace_log pre outs\<rparr>"
  have "get_monitor (pre @ c # post) kwargs s = get_monitor (c # post) kwargs ?s1"
    using assms(1,2) by (rule get_monitor_skip_failed)
  moreover have "get_monitor (c # post) kwargs ?s1 =
      (Inr m, ?s1\<lparr>world := w2,
                  calls := calls ?s1 @ [Construct (cls_name c), Query (cls_name c)],
                  log := log ?s1 @ [Info ''Using %s'' (cls_name c)]\<rparr>)"
    using assms(3) by (auto simp: spec_probe_def split: prod.splits sum.splits)
  ultimately have run: "get_monitor (pre @ c # post) kwargs s =
           (Inr m,
            s\<lparr>world := w2,
              calls := calls s @ trace_calls pre outs @
                         [Construct (cls_name c), Query (cls_name c)],
              log := log s @ trace_log pre outs @ [Info ''Using %s'' (cls_name c)]\<rparr>)"
    by simp
  have cons: "constructions (trace_calls pre outs @ [Construct (cls_name c), Query (cls_name c)])
             = map cls_name (pre @ [c])"
    using len by (simp add: constructions_append constructions_trace_calls)
  have qs: "queries (trace_calls pre outs @ [Construct (cls_name c), Query (cls_name c)])
             = constructed (pre @ [c]) (outs @ [Usable m t])"
    using len by (simp add: queries_append queries_trace_calls constructed_snoc_usable)
  from run cons qs show ?thesis by blast
qed


theorem get_monitor_returns_first_usable_witness:
  "list_all discarded [ProbeFailed (RuntimeError ''Gnome Mutter is not available, is gnome running?'')]
   \<and> fst (spec_probe_all [GnomeWaylandIdleMonitor] [] gnome_without_mutter_world)
       = [ProbeFailed (RuntimeError ''Gnome Mutter is not available, is gnome running?'')]
   \<and> fst (get_monitor [GnomeWaylandIdleMonitor, X11IdleMonitor, WindowsIdleMonitor] []
            (start gnome_without_mutter_world))
       = Inr \<lparr>idle_threshold = 120, \<dots> = X11Fields (Some 0) 0 ''libXss.so.1'' 0\<rparr>
   \<and> calls (snd (get_monitor [GnomeWaylandIdleMonitor, X11IdleMonitor, WindowsIdleMonitor] []
                   (start gnome_without_mutter_world)))
       = [Construct ''GnomeWaylandIdleMonitor'', Query ''GnomeWaylandIdleMonitor'',
          Construct ''X11IdleMonitor'', Query ''X11IdleMonitor'']"
proof -
  let ?w = "gnome_without_mutter_world"
  let ?w1 = "snd (spec_probe_all [GnomeWaylandIdleMonitor] [] ?w)"
  let ?out = "ProbeFailed (RuntimeError ''Gnome Mutter is not available, is gnome running?'')
                :: fields outcome"
  let ?m = "\<lparr>idle_threshold = 120, \<dots> = X11Fields (Some 0) 0 ''libXss.so.1'' 0\<rparr>"
  have f1: "fst (spec_probe_all [GnomeWaylandIdleMonitor] [] ?w) = [?out]"
    by (simp add: backend_defs world_defs)
  have h1: "spec_probe_all [GnomeWaylandIdleMonitor] [] (world (start ?w)) = ([?out], ?w1)"
    using f1 by (simp add: start_def prod_eq_iff)
  have h2: "list_all discarded [?out]"
    by simp
  have f3: "fst (spec_probe X11IdleMonitor [] ?w1) = Usable ?m 300"
    by (simp add: backend_defs world_defs)
  have h3: "spec_probe X11IdleMonitor [] ?w1 = (Usable ?m 300, snd (spec_probe X11IdleMonitor [] ?w1))"
    using f3 by (simp add: prod_eq_iff)
  show ?thesis
    using get_monitor_returns_first_usable [OF h1 h2 h3, of "[WindowsIdleMonitor]"] f1 h2
    by (simp add: start_def cls_names del: get_monitor.simps spec_probe_all.simps)
qed

subsection \<open>C2: no usable candidate\<close>

text \<open>
  C2, as the specification states it, holds of every registry whose candidates all fail.
  With a client's subclass whose constructor raises \<^verbatim>\<open>SystemExit\<close> in front of the
  display-extension candidate, on a machine without the X11 library, both candidates
  fail their construction; \<open>get_monitor\<close> raises \<^verbatim>\<open>SystemExit\<close>, not the
  \<^verbatim>\<open>RuntimeError\<close>, and it has attempted the first candidate only.
\<close>

theorem exiting_candidate_ends_the_search_without_runtime_error:
  "fst (spec_probe_all [ExitingMonitor, X11IdleMonitor] [] bare_world)
     = [ConstructFailed SystemExit, ConstructFailed (OSError ''Could not find library `X11`'')]
   \<and> fst (get_monitor [ExitingMonitor, X11IdleMonitor] [] (start bare_world)) = Inl SystemExit
   \<and> fst (get_monitor [ExitingMonitor, X11IdleMonitor] [] (start bare_world))
       \<noteq> Inl (RuntimeError ''Could not find a working monitor.'')
   \<and> calls (snd (get_monitor [ExitingMonitor, X11IdleMonitor] [] (start bare_world)))
       = [Construct ''ExitingMonitor'']"
  by (simp add: backend_defs world_defs)

text \<open>
  C2, as the code has it. When every candidate of the registry, probed in registration
  order, fails its construction or its query with an \<^verbatim>\<open>Exception\<close> (the empty registry
  included), \<open>get_monitor\<close> raises \<^verbatim>\<open>RuntimeError("Could not find a working monitor.")\<close>,
  the error the specification calls \<open>NoMonitorAvailable\<close>, and by then it has constructed
  every candidate exactly once, in registration order.
\<close>

theorem get_monitor_fails_when_all_fail:
  assumes "spec_probe_all candidates kwargs (world s) = (outs, w1)"
    and "list_all discarded outs"
  shows "get_monitor candidates kwargs s =
           (Inl (RuntimeError ''Could not find a working monitor.''),
            s\<lparr>world := w1,
              calls := calls s @ trace_calls candidates outs,
              log := log s @ trace_log candidates outs\<rparr>)
         \<and> constructions (trace_calls candidates outs) = map cls_name candidates"
proof -
  have "get_monitor (candidates @ []) kwargs s =
          get_monitor [] kwargs
            (s\<lparr>world := w1, calls := calls s @ trace_calls candidates outs,
               log := log s @ trace_log candidates outs\<rparr>)"
    using assms by (rule get_monitor_skip_failed)
  moreover have "length outs = length candidates"
    using assms(1) by (rule spec_probe_all_length)
  ultimately show ?thesis
    by (simp add: constructions_trace_calls)
qed

theorem get_monitor_fails_when_all_fail_witness:
  "fst (get_monitor ([] :: (world, fields) monitor_class list) [] (start bare_world))
     = Inl (RuntimeError ''Could not find a working monitor.'')
   \<and> calls (snd (get_monitor ([] :: (world, fields) monitor_class list) [] (start bare_world))) = []
   \<and> list_all discarded [ConstructFailed (RuntimeError ''Gnome is not running.'') :: fields outcome,
                       ConstructFailed (OSError ''Could not find library `X11`'')]
   \<and> spec_probe_all (registry False) [] bare_world
       = ([ConstructFailed (RuntimeError ''Gnome is not running.''),
           ConstructFailed (OSError ''Could not find library `X11`'')], bare_world)
   \<and> fst (get_monitor (registry False) [] (start bare_world))
       = Inl (RuntimeError ''Could not find a working monitor.'')
   \<and> calls (snd (get_monitor (registry False) [] (start bare_world)))
       = [Construct ''GnomeWaylandIdleMonitor'', Construct ''X11IdleMonitor'']"
proof -
  have e1: "spec_probe_all ([] :: (world, fields) monitor_class list) [] (world (start bare_world))
              = ([], bare_world)"
    by (simp add: start_def)
  have e2: "list_all discarded ([] :: fields outcome list)"
    by simp
  let ?outs = "[ConstructFailed (RuntimeError ''Gnome is not running.''),
                ConstructFailed (OSError ''Could not find library `X11`'')] :: fields outcome list"
  have r: "registry False = [GnomeWaylandIdleMonitor, X11IdleMonitor]"
    by (simp add: registry_eq)
  have f1: "spec_probe_all [GnomeWaylandIdleMonitor, X11IdleMonitor] [] bare_world
              = (?outs, bare_world)"
    by (simp add: backend_defs world_defs)
  have h1: "spec_probe_all (registry False) [] (world (start bare_world)) = (?outs, bare_world)"
    using f1 by (simp add: r start_def)
  have h2: "list_all discarded ?outs"
    by simp
  show ?thesis
    using get_monitor_fails_when_all_fail [OF e1 e2] get_monitor_fails_when_all_fail [OF h1 h2]
      h2 f1
    by (simp add: r start_def cls_names del: get_monitor.simps spec_probe_all.simps)
qed

subsection \<open>C3: a failed candidate is skipped\<close>

text \<open>
  C3, as the specification states it, has the search go on after every probe that
  fails. On a GNOME desktop the session-bus candidate is constructed; when its query is
  interrupted from the keyboard, \<open>get_monitor\<close> raises \<^verbatim>\<open>KeyboardInterrupt\<close> to its
  caller and the display-extension candidate, which would have answered, is never
  constructed.
\<close>

theorem interrupted_probe_ends_the_search:
  "fst (spec_probe GnomeWaylandIdleMonitor [] interrupted_gnome_world)
     = ProbeFailed KeyboardInterrupt
   \<and> fst (spec_probe X11IdleMonitor []
            (snd (spec_probe GnomeWaylandIdleMonitor [] interrupted_gnome_world)))
       = Usable \<lparr>idle_threshold = 120, \<dots> = X11Fields (Some 0) 0 ''libXss.so.1'' 0\<rparr> 300
   \<and> fst (get_monitor (registry False) [] (start interrupted_gnome_world))
       = Inl KeyboardInterrupt
   \<and> calls (snd (get_monitor (registry False) [] (start interrupted_gnome_world)))
       = [Construct ''GnomeWaylandIdleMonitor'', Query ''GnomeWaylandIdleMonitor'']"
  by (simp add: registry_eq backend_defs world_defs)

text \<open>
  C3, as the code has it. Let the search have reached candidate \<open>c\<close> (every candidate of
  \<open>pre\<close> before it has been discarded). If the construction of \<open>c\<close> raises, the selector
  has made one call on \<open>c\<close>, the construction: the query of \<open>c\<close> is not invoked, whatever
  was raised. If what the construction, or the query after a successful construction,
  raised is an \<^verbatim>\<open>Exception\<close>, the selector goes on with the candidates after \<open>c\<close>: the
  failure neither ends the search nor reaches the caller. If it is not an \<^verbatim>\<open>Exception\<close>,
  it leaves \<open>get_monitor\<close> at once.
\<close>

theorem get_monitor_skips_failed_candidate:
  assumes "spec_probe_all pre kwargs (world s) = (outs, w1)"
    and "list_all discarded outs"
  shows "(cls_new c kwargs w1 = (Inl e, w2) \<longrightarrow>
            get_monitor (pre @ c # post) kwargs s =
            (if is_Exception e
             then get_monitor post kwargs
                    (s\<lparr>world := w2,
                       calls := calls s @ trace_calls pre outs @ [Construct (cls_name c)],
                       log := log s @ trace_log pre outs @
                                [Warning ''Trying other montiors, could not load %s''
                                   (cls_name c) e]\<rparr>)
             else (Inl e,
                   s\<lparr>world := w2,
                     calls := calls s @ trace_calls pre outs @ [Construct (cls_name c)],
                     log := log s @ trace_log pre outs\<rparr>)))
       \<and> (cls_new c kwargs w1 = (Inr m, w2) \<and> cls_get_idle_time c m w2 = (Inl e, w3) \<longrightarrow>
            get_monitor (pre @ c # post) kwargs s =
            (if is_Exception e
             then get_monitor post kwargs
                    (s\<lparr>world := w3,
                       calls := calls s @ trace_calls pre outs @
                                  [Construct (cls_name c), Query (cls_name c)],
                       log := log s @ trace_log pre outs @
                                [Warning ''Trying other montiors, could not load %s''
                                   (cls_name c) e]\<rparr>)
             else (Inl e,
                   s\<lparr>world := w3,
                     calls := calls s @ trace_calls pre outs @
                                [Construct (cls_name c), Query (cls_name c)],
                     log := log s @ trace_log pre outs\<rparr>)))"
proof -
  let ?s1 = "s\<lparr>world := w1, calls := calls s @ trace_calls pre outs,
                log := log s @ trace_log pre outs\<rparr>"
  have skip: "get_monitor (pre @ c # post) kwargs s = get_monitor (c # post) kwargs ?s1"
    using assms by (rule get_monitor_skip_failed)
  have a: "get_monitor (c # post) kwargs ?s1 =
           (if is_Exception e
            then get_monitor post kwargs
                   (?s1\<lparr>world := w2,
                         calls := calls ?s1 @ [Construct (cls_name c)],
                         log := log ?s1 @
                                  [Warning ''Trying other montiors, could not load %s''
                                     (cls_name c) e]\<rparr>)
            else (Inl e, ?s1\<lparr>world := w2, calls := calls ?s1 @ [Construct (cls_name c)]\<rparr>))"
    if "cls_new c kwargs w1 = (Inl e, w2)"
    using that by simp
  have b: "get_monitor (c # post) kwargs ?s1 =
           (if is_Exception e
            then get_monitor post kwargs
                   (?s1\<lparr>world := w3,
                         calls := calls ?s1 @ [Construct (cls_name c), Query (cls_name c)],
                         log := log ?s1 @
                                  [Warning ''Trying other montiors, could not load %s''
                                     (cls_name c) e]\<rparr>)
            else (Inl e, ?s1\<lparr>world := w3,
                             calls := calls ?s1 @ [Construct (cls_name c), Query (cls_name c)]\<rparr>))"
    if "cls_new c kwargs w1 = (Inr m, w2)" and "cls_get_idle_time c m w2 = (Inl e, w3)"
    using that by simp
  show ?thesis
    using skip a b by simp
qed

theorem get_monitor_skips_failed_candidate_witness:
  "cls_new ExitingMonitor [] x11_world = (Inl SystemExit, x11_world)
   \<and> get_monitor [ExitingMonitor, X11IdleMonitor] [] (start x11_world)
       = (Inl SystemExit,
          \<lparr>world = x11_world, calls = [Construct ''ExitingMonitor''], log = []\<rparr>)
   \<and> fst (cls_get_idle_time GnomeWaylandIdleMonitor gnome_monitor
            (snd (cls_new GnomeWaylandIdleMonitor [] interrupted_gnome_world)))
       = Inl KeyboardInterrupt
   \<and> fst (get_monitor [GnomeWaylandIdleMonitor, X11IdleMonitor] []
            (start interrupted_gnome_world))
       = Inl KeyboardInterrupt
   \<and> calls (snd (get_monitor [GnomeWaylandIdleMonitor, X11IdleMonitor] []
                   (start interrupted_gnome_world)))
       = [Construct ''GnomeWaylandIdleMonitor'', Query ''GnomeWaylandIdleMonitor'']
   \<and> cls_new GnomeWaylandIdleMonitor [] x11_world = (Inl (RuntimeError ''Gnome is not running.''), x11_world)
   \<and> fst (get_monitor [GnomeWaylandIdleMonitor, X11IdleMonitor] [] (start x11_world))
       = Inr \<lparr>idle_threshold = 120, \<dots> = X11Fields (Some 0) 0 ''libXss.so.1'' 0\<rparr>
   \<and> calls (snd (get_monitor [GnomeWaylandIdleMonitor, X11IdleMonitor] [] (start x11_world)))
       = [Construct ''GnomeWaylandIdleMonitor'', Construct ''X11IdleMonitor'', Query ''X11IdleMonitor'']
   \<and> fst (cls_new GnomeWaylandIdleMonitor [] gnome_without_mutter_world)
       = Inr \<lparr>idle_threshold = 120, \<dots> =
               GnomeWaylandFields 0
                 \<lparr>path = ''/org/gnome/Mutter/IdleMonitor/Core'',
                  bus_name = ''org.gnome.Mutter.IdleMonitor'',
                  interface = ''org.gnome.Mutter.IdleMonitor'',
                  member = ''GetIdletime''\<rparr>\<rparr>
   \<and> fst (cls_get_idle_time GnomeWaylandIdleMonitor
            \<lparr>idle_threshold = 120, \<dots> =
               GnomeWaylandFields 0
                 \<lparr>path = ''/org/gnome/Mutter/IdleMonitor/Core'',
                  bus_name = ''org.gnome.Mutter.IdleMonitor'',
                  interface = ''org.gnome.Mutter.IdleMonitor'',
                  member = ''GetIdletime''\<rparr>\<rparr>
            (snd (cls_new GnomeWaylandIdleMonitor [] gnome_without_mutter_world)))
       = Inl (RuntimeError ''Gnome Mutter is not available, is gnome running?'')
   \<and> fst (get_monitor [GnomeWaylandIdleMonitor, X11IdleMonitor] [] (start gnome_without_mutter_world))
       = Inr \<lparr>idle_threshold = 120, \<dots> = X11Fields (Some 0) 0 ''libXss.so.1'' 0\<rparr>
   \<and> calls (snd (get_monitor [GnomeWaylandIdleMonitor, X11IdleMonitor] []
                   (start gnome_without_mutter_world)))
       = [Construct ''GnomeWaylandIdleMonitor'', Query ''GnomeWaylandIdleMonitor'',
          Construct ''X11IdleMonitor'', Query ''X11IdleMonitor'']"
proof -
  let ?G = GnomeWaylandIdleMonitor
  let ?none = "[] :: (world, fields) monitor_class list"
  let ?x = "\<lparr>idle_threshold = 120, \<dots> = X11Fields (Some 0) 0 ''libXss.so.1'' 0\<rparr>"
  let ?g = "\<lparr>idle_threshold = 120, \<dots> =
               GnomeWaylandFields 0
                 \<lparr>path = ''/org/gnome/Mutter/IdleMonitor/Core'',
                  bus_name = ''org.gnome.Mutter.IdleMonitor'',
                  interface = ''org.gnome.Mutter.IdleMonitor'',
                  member = ''GetIdletime''\<rparr>\<rparr>"
  have p1: "spec_probe_all ?none [] (world (start x11_world)) = ([], x11_world)"
    and p2: "spec_probe_all ?none [] (world (start gnome_without_mutter_world))
               = ([], gnome_without_mutter_world)"
    and p3: "list_all discarded ([] :: fields outcome list)"
    by (simp_all add: start_def)
  have c1: "cls_new ?G [] x11_world = (Inl (RuntimeError ''Gnome is not running.''), x11_world)"
    by (simp add: backend_defs world_defs)
  let ?w2 = "snd (cls_new ?G [] gnome_without_mutter_world)"
  have f2: "fst (cls_new ?G [] gnome_without_mutter_world) = Inr ?g"
    by (simp add: backend_defs world_defs)
  have c2: "cls_new ?G [] gnome_without_mutter_world = (Inr ?g, ?w2)"
    using f2 by (simp add: prod_eq_iff)
  let ?w3 = "snd (cls_get_idle_time ?G ?g ?w2)"
  have f3: "fst (cls_get_idle_time ?G ?g ?w2)
              = Inl (RuntimeError ''Gnome Mutter is not available, is gnome running?'')"
    by (simp add: backend_defs world_defs)
  have c3: "cls_get_idle_time ?G ?g ?w2
              = (Inl (RuntimeError ''Gnome Mutter is not available, is gnome running?''), ?w3)"
    using f3 by (simp add: prod_eq_iff)
  have x1: "fst (get_monitor [X11IdleMonitor] [] s) = Inr ?x
            \<and> calls (snd (get_monitor [X11IdleMonitor] [] s))
                = calls s @ [Construct ''X11IdleMonitor'', Query ''X11IdleMonitor'']"
    if "find_library (world s) = find_library x11_world"
       "load_library (world s) = load_library x11_world"
       "open_displays (world s) = 0" "n_xss_buffers (world s) = 0" "x_root_window (world s) = 0"
       "x_display (world s)"
    for s :: "world state"
    using that by (simp add: backend_defs world_defs split: option.splits)
  have t1: "get_monitor [?G, X11IdleMonitor] [] (start x11_world) =
            get_monitor [X11IdleMonitor] []
              ((start x11_world)\<lparr>world := x11_world,
                 calls := calls (start x11_world) @ trace_calls ?none [] @ [Construct (cls_name ?G)],
                 log := log (start x11_world) @ trace_log ?none [] @
                          [Warning ''Trying other montiors, could not load %s'' (cls_name ?G)
                             (RuntimeError ''Gnome is not running.'')]\<rparr>)"
    using get_monitor_skips_failed_candidate [OF p1 p3,
        where c = ?G and e = "RuntimeError ''Gnome is not running.''" and ?w2.0 = x11_world
          and post = "[X11IdleMonitor]"] c1
    by (simp del: get_monitor.simps)
  have t2: "get_monitor [?G, X11IdleMonitor] [] (start gnome_without_mutter_world) =
            get_monitor [X11IdleMonitor] []
              ((start gnome_without_mutter_world)\<lparr>world := ?w3,
                 calls := calls (start gnome_without_mutter_world) @ trace_calls ?none [] @
                            [Construct (cls_name ?G), Query (cls_name ?G)],
                 log := log (start gnome_without_mutter_world) @ trace_log ?none [] @
                          [Warning ''Trying other montiors, could not load %s'' (cls_name ?G)
                             (RuntimeError ''Gnome Mutter is not available, is gnome running?'')]\<rparr>)"
    using get_monitor_skips_failed_candidate [OF p2 p3,
        where c = ?G and e = "RuntimeError ''Gnome Mutter is not available, is gnome running?''"
          and post = "[X11IdleMonitor]" and m = ?g and ?w2.0 = ?w2 and ?w3.0 = ?w3] c2 c3
    by (simp del: get_monitor.simps)
  have w3: "find_library ?w3 = find_library x11_world" "load_library ?w3 = load_library x11_world"
    "open_displays ?w3 = 0" "n_xss_buffers ?w3 = 0" "x_root_window ?w3 = 0" "x_display ?w3"
    by (simp_all add: backend_defs world_defs)
  have wx: "open_displays x11_world = 0" "n_xss_buffers x11_world = 0" "x_root_window x11_world = 0"
    "x_display x11_world"
    by (simp_all add: world_defs)
  have p4: "spec_probe_all ?none [] (world (start interrupted_gnome_world))
               = ([], interrupted_gnome_world)"
    by (simp add: start_def)
  have c4: "cls_new ExitingMonitor [] x11_world = (Inl SystemExit, x11_world)"
    by (simp add: ExitingMonitor_def)
  have t3: "get_monitor [ExitingMonitor, X11IdleMonitor] [] (start x11_world)
              = (Inl SystemExit,
                 \<lparr>world = x11_world, calls = [Construct ''ExitingMonitor''], log = []\<rparr>)"
    using get_monitor_skips_failed_candidate [OF p1 p3,
        where c = ExitingMonitor and e = SystemExit and ?w2.0 = x11_world
          and post = "[X11IdleMonitor]"] c4
    by (simp add: start_def cls_names del: get_monitor.simps)
  let ?v2 = "snd (cls_new ?G [] interrupted_gnome_world)"
  have g2: "fst (cls_new ?G [] interrupted_gnome_world) = Inr gnome_monitor"
    by (simp add: backend_defs world_defs gnome_monitor_def)
  have d2: "cls_new ?G [] interrupted_gnome_world = (Inr gnome_monitor, ?v2)"
    using g2 by (simp add: prod_eq_iff)
  let ?v3 = "snd (cls_get_idle_time ?G gnome_monitor ?v2)"
  have g3: "fst (cls_get_idle_time ?G gnome_monitor ?v2) = Inl KeyboardInterrupt"
    by (simp add: backend_defs world_defs gnome_monitor_def)
  have d3: "cls_get_idle_time ?G gnome_monitor ?v2 = (Inl KeyboardInterrupt, ?v3)"
    using g3 by (simp add: prod_eq_iff)
  have t4: "get_monitor [?G, X11IdleMonitor] [] (start interrupted_gnome_world)
              = (Inl KeyboardInterrupt,
                 \<lparr>world = ?v3,
                  calls = [Construct ''GnomeWaylandIdleMonitor'', Query ''GnomeWaylandIdleMonitor''],
                  log = []\<rparr>)"
    using get_monitor_skips_failed_candidate [OF p4 p3,
        where c = ?G and e = KeyboardInterrupt and post = "[X11IdleMonitor]"
          and m = gnome_monitor and ?w2.0 = ?v2 and ?w3.0 = ?v3] d2 d3
    by (simp add: start_def cls_names del: get_monitor.simps)
  show ?thesis
    unfolding t1 t2 t3 t4 using c1 c4 f2 f3 g3 w3 wx
    by (simp add: start_def cls_names x1 del: get_monitor.simps)
qed


section \<open>Properties of the monitors\<close>

subsection \<open>C4: idle means above the threshold\<close>

text \<open>
  C4. For every monitor instance, whatever its class's \<open>get_idle_time\<close> is: when the
  query returns \<open>t\<close>, \<open>is_idle\<close> returns whether \<open>t > idle_threshold\<close>; in particular it
  returns \<open>False\<close> when \<open>t\<close> equals the threshold.
\<close>

theorem is_idle_iff_above_threshold:
  assumes "get_idle_time_of self w = (Inr t, w')"
  shows "is_idle get_idle_time_of self w = (Inr (t > idle_threshold self), w')
         \<and> (t = idle_threshold self \<longrightarrow> is_idle get_idle_time_of self w = (Inr False, w'))"
  using assms by (simp add: is_idle_def)

theorem is_idle_iff_above_threshold_witness:
  "get_idle_time \<lparr>idle_threshold = 120, \<dots> = WindowsFields\<rparr>
     (bare_world\<lparr>tick_count := 300000\<rparr>) = (Inr 300, bare_world\<lparr>tick_count := 300000\<rparr>)
   \<and> is_idle get_idle_time \<lparr>idle_threshold = 120, \<dots> = WindowsFields\<rparr>
        (bare_world\<lparr>tick_count := 300000\<rparr>) = (Inr True, bare_world\<lparr>tick_count := 300000\<rparr>)
   \<and> get_idle_time \<lparr>idle_threshold = 120, \<dots> = WindowsFields\<rparr>
        (bare_world\<lparr>tick_count := 120000\<rparr>) = (Inr 120, bare_world\<lparr>tick_count := 120000\<rparr>)
   \<and> is_idle get_idle_time \<lparr>idle_threshold = 120, \<dots> = WindowsFields\<rparr>
        (bare_world\<lparr>tick_count := 120000\<rparr>) = (Inr False, bare_world\<lparr>tick_count := 120000\<rparr>)"
proof -
  let ?m = "\<lparr>idle_threshold = 120, \<dots> = WindowsFields\<rparr>"
  let ?w = "bare_world\<lparr>tick_count := 300000\<rparr>"
  let ?v = "bare_world\<lparr>tick_count := 120000\<rparr>"
  have a: "get_idle_time ?m ?w = (Inr 300, ?w)"
    by (simp add: get_idle_time_def WindowsIdleMonitor_get_idle_time_def bare_world_def)
  have b: "get_idle_time ?m ?v = (Inr 120, ?v)"
    by (simp add: get_idle_time_def WindowsIdleMonitor_get_idle_time_def bare_world_def)
  show ?thesis
    using is_idle_iff_above_threshold [where get_idle_time_of = get_idle_time, OF a]
      is_idle_iff_above_threshold [where get_idle_time_of = get_idle_time, OF b] a b
    by simp
qed

section \<open>Properties of the session-bus backend\<close>

text \<open>
  A query on a connection that is not open fails on the socket: the bus is not reached
  and nothing is closed again.
\<close>

lemma gnome_query_on_closed_connection:
  assumes "monitor.more self = GnomeWaylandFields conn msg"
    and "connections w conn \<noteq> Opened"
  shows "get_idle_time self w =
           (Inl (OSError ''[Errno 9] Bad file descriptor''),
            w\<lparr>bus_calls := bus_calls w @ [SendAndGetReply conn]\<rparr>)"
  using assms
  by (simp add: get_idle_time_def GnomeWaylandIdleMonitor_get_idle_time_def
      send_and_get_reply_def)

subsection \<open>C6: an unknown service closes the connection and raises a descriptive error\<close>

text \<open>
  C6. When the query of a session-bus monitor, on its open connection, fails because the
  bus answers with the error \<^verbatim>\<open>org.freedesktop.DBus.Error.ServiceUnknown\<close>,
  \<open>get_idle_time\<close> raises
  \<^verbatim>\<open>RuntimeError("Gnome Mutter is not available, is gnome running?")\<close>, and in the world
  in which the error is raised the monitor's connection is closed: the calls on the bus
  are the request and then the close.
\<close>

theorem gnome_service_unknown_closes_then_raises:
  assumes "monitor.more self = GnomeWaylandFields conn msg"
    and "connections w conn = Opened"
    and "bus_reply w = Inl (DBusErrorResponse ''org.freedesktop.DBus.Error.ServiceUnknown'')"
  shows "get_idle_time self w =
           (Inl (RuntimeError ''Gnome Mutter is not available, is gnome running?''),
            w\<lparr>connections := (connections w)(conn := Closed),
              bus_calls := bus_calls w @ [SendAndGetReply conn, CloseConnection conn]\<rparr>)
         \<and> connections (snd (get_idle_time self w)) conn = Closed"
  using assms
  by (simp add: get_idle_time_def GnomeWaylandIdleMonitor_get_idle_time_def
      send_and_get_reply_def close_connection_def)

theorem gnome_service_unknown_closes_then_raises_witness:
  "fst (GnomeWaylandIdleMonitor_init [] gnome_without_mutter_world) = Inr gnome_monitor
   \<and> monitor.more gnome_monitor = GnomeWaylandFields 0 (message (monitor.more gnome_monitor))
   \<and> connections (snd (GnomeWaylandIdleMonitor_init [] gnome_without_mutter_world)) 0 = Opened
   \<and> bus_reply (snd (GnomeWaylandIdleMonitor_init [] gnome_without_mutter_world))
       = Inl (DBusErrorResponse ''org.freedesktop.DBus.Error.ServiceUnknown'')
   \<and> fst (get_idle_time gnome_monitor
            (snd (GnomeWaylandIdleMonitor_init [] gnome_without_mutter_world)))
       = Inl (RuntimeError ''Gnome Mutter is not available, is gnome running?'')
   \<and> connections (snd (get_idle_time gnome_monitor
            (snd (GnomeWaylandIdleMonitor_init [] gnome_without_mutter_world)))) 0 = Closed
   \<and> bus_calls (snd (get_idle_time gnome_monitor
            (snd (GnomeWaylandIdleMonitor_init [] gnome_without_mutter_world))))
       = [ConnectAndAuthenticate, SendAndGetReply 0, CloseConnection 0]"
proof -
  let ?w = "snd (GnomeWaylandIdleMonitor_init [] gnome_without_mutter_world)"
  have i: "fst (GnomeWaylandIdleMonitor_init [] gnome_without_mutter_world) = Inr gnome_monitor"
    by (simp add: backend_defs world_defs gnome_monitor_def)
  have a: "monitor.more gnome_monitor = GnomeWaylandFields 0 (message (monitor.more gnome_monitor))"
    by (simp add: gnome_monitor_def)
  have o: "connections ?w 0 = Opened"
    by (simp add: backend_defs world_defs)
  have b: "bus_reply ?w = Inl (DBusErrorResponse ''org.freedesktop.DBus.Error.ServiceUnknown'')"
    by (simp add: backend_defs world_defs)
  have c: "bus_calls ?w = [ConnectAndAuthenticate]"
    by (simp add: backend_defs world_defs)
  show ?thesis
    using gnome_service_unknown_closes_then_raises [OF a o b] i a o b c by simp
qed

subsection \<open>C9: every bus error closes the connection\<close>

text \<open>
  C9. Whatever the name of the bus error that answers the query of a session-bus monitor
  on its open connection, the connection is closed in the world in which the error is
  raised: the descriptive \<^verbatim>\<open>RuntimeError\<close> for \<^verbatim>\<open>ServiceUnknown\<close>, the bus error itself,
  unchanged, for any other name.
\<close>

theorem gnome_bus_error_closes_connection:
  assumes "monitor.more self = GnomeWaylandFields conn msg"
    and "connections w conn = Opened"
    and "bus_reply w = Inl (DBusErrorResponse name)"
  shows "get_idle_time self w =
           (Inl (if name = ''org.freedesktop.DBus.Error.ServiceUnknown''
                 then RuntimeError ''Gnome Mutter is not available, is gnome running?''
                 else DBusErrorResponse name),
            w\<lparr>connections := (connections w)(conn := Closed),
              bus_calls := bus_calls w @ [SendAndGetReply conn, CloseConnection conn]\<rparr>)
         \<and> connections (snd (get_idle_time self w)) conn = Closed"
  using assms
  by (simp add: get_idle_time_def GnomeWaylandIdleMonitor_get_idle_time_def
      send_and_get_reply_def close_connection_def)

theorem gnome_bus_error_closes_connection_witness:
  "fst (GnomeWaylandIdleMonitor_init [] gnome_no_reply_world) = Inr gnome_monitor
   \<and> monitor.more gnome_monitor = GnomeWaylandFields 0 (message (monitor.more gnome_monitor))
   \<and> connections (snd (GnomeWaylandIdleMonitor_init [] gnome_no_reply_world)) 0 = Opened
   \<and> bus_reply (snd (GnomeWaylandIdleMonitor_init [] gnome_no_reply_world))
       = Inl (DBusErrorResponse ''org.freedesktop.DBus.Error.NoReply'')
   \<and> fst (get_idle_time gnome_monitor (snd (GnomeWaylandIdleMonitor_init [] gnome_no_reply_world)))
       = Inl (DBusErrorResponse ''org.freedesktop.DBus.Error.NoReply'')
   \<and> connections (snd (get_idle_time gnome_monitor
            (snd (GnomeWaylandIdleMonitor_init [] gnome_no_reply_world)))) 0 = Closed
   \<and> bus_calls (snd (get_idle_time gnome_monitor
            (snd (GnomeWaylandIdleMonitor_init [] gnome_no_reply_world))))
       = [ConnectAndAuthenticate, SendAndGetReply 0, CloseConnection 0]"
proof -
  let ?w = "snd (GnomeWaylandIdleMonitor_init [] gnome_no_reply_world)"
  have i: "fst (GnomeWaylandIdleMonitor_init [] gnome_no_reply_world) = Inr gnome_monitor"
    by (simp add: backend_defs world_defs gnome_monitor_def)
  have a: "monitor.more gnome_monitor = GnomeWaylandFields 0 (message (monitor.more gnome_monitor))"
    by (simp add: gnome_monitor_def)
  have o: "connections ?w 0 = Opened"
    by (simp add: backend_defs world_defs)
  have b: "bus_reply ?w = Inl (DBusErrorResponse ''org.freedesktop.DBus.Error.NoReply'')"
    by (simp add: backend_defs world_defs)
  have c: "bus_calls ?w = [ConnectAndAuthenticate]"
    by (simp add: backend_defs world_defs)
  show ?thesis
    using gnome_bus_error_closes_connection [OF a o b] i a o b c by simp
qed

subsection \<open>C7: the desktop is checked before the bus is touched\<close>

text \<open>
  C7. When \<^verbatim>\<open>XDG_CURRENT_DESKTOP\<close> does not contain \<^verbatim>\<open>GNOME\<close>, the construction of a
  session-bus monitor fails and leaves the world as it was: no connection is opened and
  no call is made on the bus; the error is \<^verbatim>\<open>RuntimeError("Gnome is not running.")\<close>
  whenever the keyword arguments are accepted by the base class. Conversely a
  construction that made a call on the bus, or that succeeded, passed the check first, and
  its one call on the bus is the connection; a monitor it returns holds an open connection
  and the \<^verbatim>\<open>GetIdletime\<close> message.
\<close>

theorem gnome_init_checks_desktop_first:
  "(\<not> str_in ''GNOME'' (environ_get w ''XDG_CURRENT_DESKTOP'' '''') \<longrightarrow>
      snd (GnomeWaylandIdleMonitor_init kwargs w) = w
      \<and> (\<exists>e. fst (GnomeWaylandIdleMonitor_init kwargs w) = Inl e)
      \<and> (IdleMonitor_init kwargs = Inr base \<longrightarrow>
           fst (GnomeWaylandIdleMonitor_init kwargs w) = Inl (RuntimeError ''Gnome is not running.'')))
   \<and> (bus_calls (snd (GnomeWaylandIdleMonitor_init kwargs w)) \<noteq> bus_calls w \<longrightarrow>
        str_in ''GNOME'' (environ_get w ''XDG_CURRENT_DESKTOP'' '''')
        \<and> bus_calls (snd (GnomeWaylandIdleMonitor_init kwargs w))
            = bus_calls w @ [ConnectAndAuthenticate])
   \<and> (GnomeWaylandIdleMonitor_init kwargs w = (Inr m, w') \<longrightarrow>
        str_in ''GNOME'' (environ_get w ''XDG_CURRENT_DESKTOP'' '''')
        \<and> bus_calls w' = bus_calls w @ [ConnectAndAuthenticate]
        \<and> connections w' (connection (monitor.more m)) = Opened
        \<and> member (message (monitor.more m)) = ''GetIdletime'')"
  by (auto simp: GnomeWaylandIdleMonitor_init_def connect_and_authenticate_def instance_of_def
      monitor.extend_def Let_def split: sum.splits option.splits)

theorem gnome_init_checks_desktop_first_witness:
  "\<not> str_in ''GNOME'' (environ_get x11_world ''XDG_CURRENT_DESKTOP'' '''')
   \<and> IdleMonitor_init [] = Inr \<lparr>idle_threshold = 120\<rparr>
   \<and> GnomeWaylandIdleMonitor_init [] x11_world
       = (Inl (RuntimeError ''Gnome is not running.''), x11_world)
   \<and> str_in ''GNOME'' (environ_get gnome_without_mutter_world ''XDG_CURRENT_DESKTOP'' '''')
   \<and> fst (GnomeWaylandIdleMonitor_init [] gnome_without_mutter_world) = Inr gnome_monitor
   \<and> bus_calls (snd (GnomeWaylandIdleMonitor_init [] gnome_without_mutter_world))
       \<noteq> bus_calls gnome_without_mutter_world
   \<and> bus_calls (snd (GnomeWaylandIdleMonitor_init [] gnome_without_mutter_world))
       = [ConnectAndAuthenticate]
   \<and> connections (snd (GnomeWaylandIdleMonitor_init [] gnome_without_mutter_world)) 0 = Opened"
proof -
  let ?g = "gnome_without_mutter_world"
  have a: "\<not> str_in ''GNOME'' (environ_get x11_world ''XDG_CURRENT_DESKTOP'' '''')"
    by (simp add: environ_get_def world_defs)
  have b: "IdleMonitor_init [] = Inr \<lparr>idle_threshold = 120\<rparr>"
    by (simp add: IdleMonitor_init_def)
  have c: "bus_calls (snd (GnomeWaylandIdleMonitor_init [] ?g)) \<noteq> bus_calls ?g"
    by (simp add: backend_defs world_defs)
  have d: "fst (GnomeWaylandIdleMonitor_init [] ?g) = Inr gnome_monitor"
    by (simp add: backend_defs world_defs gnome_monitor_def)
  have e: "GnomeWaylandIdleMonitor_init [] ?g
             = (Inr gnome_monitor, snd (GnomeWaylandIdleMonitor_init [] ?g))"
    using d by (simp add: prod_eq_iff)
  have f: "bus_calls ?g = []" "connection (monitor.more gnome_monitor) = 0"
    by (simp_all add: world_defs gnome_monitor_def)
  have r1: "GnomeWaylandIdleMonitor_init [] x11_world
              = (Inl (RuntimeError ''Gnome is not running.''), x11_world)"
    using gnome_init_checks_desktop_first [of x11_world "[]" "\<lparr>idle_threshold = 120\<rparr>"] a b
    by (simp add: prod_eq_iff)
  have r2: "str_in ''GNOME'' (environ_get ?g ''XDG_CURRENT_DESKTOP'' '''')
            \<and> bus_calls (snd (GnomeWaylandIdleMonitor_init [] ?g))
                = bus_calls ?g @ [ConnectAndAuthenticate]
            \<and> connections (snd (GnomeWaylandIdleMonitor_init [] ?g))
                  (connection (monitor.more gnome_monitor)) = Opened"
    using gnome_init_checks_desktop_first [of ?g "[]" "\<lparr>idle_threshold = 120\<rparr>" gnome_monitor
        "snd (GnomeWaylandIdleMonitor_init [] ?g)"] e
    by blast
  show ?thesis
    using a b c d f r1 r2 by simp
qed

section \<open>Resources of discarded candidates\<close>

subsection \<open>C5: what a discarded candidate leaves behind\<close>

text \<open>
  C5, as the specification states it, asks that a discarded candidate leaves nothing
  allocated. The selector has no release step: in its \<^verbatim>\<open>except\<close> branch it logs and goes on. On a
  desktop that is not GNOME, with the X11 library but without the Xss library, both
  candidates are discarded; the display-extension candidate has opened a display before its
  construction fails on the missing library, and that display handle is still open when
  \<open>get_monitor\<close> raises.
\<close>

theorem discarded_x11_candidate_leaves_display_open:
  "fst (get_monitor (registry False) [] (start x11_without_xss_world))
     = Inl (RuntimeError ''Could not find a working monitor.'')
   \<and> calls (snd (get_monitor (registry False) [] (start x11_without_xss_world)))
       = [Construct ''GnomeWaylandIdleMonitor'', Construct ''X11IdleMonitor'']
   \<and> log (snd (get_monitor (registry False) [] (start x11_without_xss_world)))
       = [Warning ''Trying other montiors, could not load %s'' ''GnomeWaylandIdleMonitor''
            (RuntimeError ''Gnome is not running.''),
          Warning ''Trying other montiors, could not load %s'' ''X11IdleMonitor''
            (OSError ''Could not find library `Xss`'')]
   \<and> open_displays x11_without_xss_world = 0
   \<and> open_displays (world (snd (get_monitor (registry False) [] (start x11_without_xss_world)))) = 1"
  by (simp add: registry_eq backend_defs world_defs x11_without_xss_world_def)

text \<open>
  C5, as the code has it. A session-bus candidate that is discarded because its probe was
  answered by a bus error has closed its own connection: the selector goes on to the next
  candidate in a world where the connection that the candidate opened is closed, the
  calls on the bus being the connection, the request and the close.
\<close>

theorem discarded_gnome_candidate_has_closed_its_connection:
  assumes "IdleMonitor_init kwargs = Inr base"
    and "str_in ''GNOME'' (environ_get (world s) ''XDG_CURRENT_DESKTOP'' '''')"
    and "bus_connect (world s) = None"
    and "bus_reply (world s) = Inl (DBusErrorResponse name)"
    and "c = n_connections (world s)"
  shows "get_monitor (GnomeWaylandIdleMonitor # rest) kwargs s =
         get_monitor rest kwargs
           (s\<lparr>world := (world s)
                  \<lparr>n_connections := Suc c,
                   connections := (connections (world s))(c := Closed),
                   bus_calls := bus_calls (world s) @
                      [ConnectAndAuthenticate, SendAndGetReply c, CloseConnection c]\<rparr>,
              calls := calls s @ [Construct ''GnomeWaylandIdleMonitor'',
                                  Query ''GnomeWaylandIdleMonitor''],
              log := log s @
                [Warning ''Trying other montiors, could not load %s'' ''GnomeWaylandIdleMonitor''
                   (if name = ''org.freedesktop.DBus.Error.ServiceUnknown''
                    then RuntimeError ''Gnome Mutter is not available, is gnome running?''
                    else DBusErrorResponse name)]\<rparr>)"
  using assms
  by (simp add: GnomeWaylandIdleMonitor_def GnomeWaylandIdleMonitor_init_def
      GnomeWaylandIdleMonitor_get_idle_time_def connect_and_authenticate_def
      send_and_get_reply_def close_connection_def get_idle_time_def instance_of_def
      monitor.extend_def Let_def)

theorem discarded_gnome_candidate_has_closed_its_connection_witness:
  "IdleMonitor_init [] = Inr \<lparr>idle_threshold = 120\<rparr>
   \<and> str_in ''GNOME'' (environ_get gnome_without_mutter_world ''XDG_CURRENT_DESKTOP'' '''')
   \<and> bus_connect gnome_without_mutter_world = None
   \<and> bus_reply gnome_without_mutter_world
       = Inl (DBusErrorResponse ''org.freedesktop.DBus.Error.ServiceUnknown'')
   \<and> n_connections gnome_without_mutter_world = 0
   \<and> fst (get_monitor [GnomeWaylandIdleMonitor, X11IdleMonitor] []
            (start gnome_without_mutter_world))
       = Inr \<lparr>idle_threshold = 120, \<dots> = X11Fields (Some 0) 0 ''libXss.so.1'' 0\<rparr>
   \<and> connections (world (snd (get_monitor [GnomeWaylandIdleMonitor, X11IdleMonitor] []
                                (start gnome_without_mutter_world)))) 0 = Closed
   \<and> bus_calls (world (snd (get_monitor [GnomeWaylandIdleMonitor, X11IdleMonitor] []
                                (start gnome_without_mutter_world))))
       = [ConnectAndAuthenticate, SendAndGetReply 0, CloseConnection 0]"
proof -
  let ?g = "gnome_without_mutter_world"
  have a: "IdleMonitor_init [] = Inr \<lparr>idle_threshold = 120\<rparr>"
    by (simp add: IdleMonitor_init_def)
  have b: "str_in ''GNOME'' (environ_get (world (start ?g)) ''XDG_CURRENT_DESKTOP'' '''')"
    by (simp add: environ_get_def world_defs)
  have c: "bus_connect (world (start ?g)) = None"
    by (simp add: world_defs)
  have d: "bus_reply (world (start ?g))
             = Inl (DBusErrorResponse ''org.freedesktop.DBus.Error.ServiceUnknown'')"
    by (simp add: world_defs)
  have e: "0 = n_connections (world (start ?g))"
    by (simp add: world_defs)
  note step = discarded_gnome_candidate_has_closed_its_connection
                [OF a b c d e, of "[X11IdleMonitor]"]
  have r: "fst (get_monitor [GnomeWaylandIdleMonitor, X11IdleMonitor] [] (start ?g))
             = Inr \<lparr>idle_threshold = 120, \<dots> = X11Fields (Some 0) 0 ''libXss.so.1'' 0\<rparr>
           \<and> connections (world (snd (get_monitor [GnomeWaylandIdleMonitor, X11IdleMonitor] []
                                        (start ?g)))) 0 = Closed
           \<and> bus_calls (world (snd (get_monitor [GnomeWaylandIdleMonitor, X11IdleMonitor] []
                                        (start ?g))))
               = [ConnectAndAuthenticate, SendAndGetReply 0, CloseConnection 0]"
    unfolding step by (simp add: backend_defs world_defs)
  show ?thesis
    using a b c d e r by (simp add: start_def)
qed

section \<open>The sign of the idle time\<close>

subsection \<open>C8: the tick-counter backend after a wrap of the counter\<close>

text \<open>
  C8. The specification has every successful \<open>get_idle_time\<close> return a number of
  seconds that is not negative. The tick-counter backend returns the difference of two tick
  counts divided by 1000 and nothing more: when the 32-bit tick counter has wrapped
  around since the last input (tick count 1000, last input at tick 4294967000), the
  query succeeds with -4294966 seconds.
\<close>

theorem windows_idle_time_negative_after_tick_wrap:
  "get_idle_time \<lparr>idle_threshold = 120, \<dots> = WindowsFields\<rparr> tick_wrap_world
     = (Inr (- 4294966), tick_wrap_world)
   \<and> (\<exists>t. fst (get_idle_time \<lparr>idle_threshold = 120, \<dots> = WindowsFields\<rparr> tick_wrap_world) = Inr t
            \<and> t < 0)"
  by (simp add: get_idle_time_def WindowsIdleMonitor_get_idle_time_def tick_wrap_world_def
      bare_world_def)

text \<open>
  The sign per backend: the tick-counter backend is non-negative exactly when the tick
  count has not fallen behind the tick of the last input; the session-bus backend has the
  sign of the reply; the display-extension backend divides an unsigned counter and is
  never negative.
\<close>

lemma windows_idle_time_sign:
  "WindowsIdleMonitor_get_idle_time self w = (Inr t, w') \<Longrightarrow>
   (0 \<le> t \<longleftrightarrow> last_input_info w \<le> tick_count w)"
  by (auto simp: WindowsIdleMonitor_get_idle_time_def)

lemma gnome_idle_time_sign:
  "connections w conn = Opened \<Longrightarrow> bus_reply w = Inr (ms # reply) \<Longrightarrow>
   \<exists>w'. GnomeWaylandIdleMonitor_get_idle_time conn msg w = (Inr (real_of_int ms / 1000), w')
        \<and> (0 \<le> real_of_int ms / 1000 \<longleftrightarrow> 0 \<le> ms)"
  by (simp add: GnomeWaylandIdleMonitor_get_idle_time_def send_and_get_reply_def)

lemma x11_idle_time_nonneg:
  assumes "X11IdleMonitor_get_idle_time d buf w = (Inr t, w')"
  shows "0 \<le> t"
proof -
  have "t = real (unat (xss_buffers w' buf)) / 1000"
    using assms unfolding X11IdleMonitor_get_idle_time_def
    by (auto split: sum.splits)
  moreover have "0 \<le> real (unat (xss_buffers w' buf)) / 1000"
    by (rule divide_nonneg_nonneg) (rule of_nat_0_le_iff, simp)
  ultimately show ?thesis by (simp only:)
qed

section \<open>The registry\<close>


subsection \<open>Executing class statements\<close>







subsection \<open>C10: the registry is the subclasses, in definition order\<close>




end
